theory Spec2Isabelle
  imports Main "HOL-Library.Word"
begin

section \<open>lmdb++.h: a C++11 wrapper for LMDB\<close>

text \<open>
  The header wraps the procedural API of the LMDB engine (\<^verbatim>\<open><lmdb.h>\<close>) in
  functions that throw on a nonzero status code, and in resource classes that hold a
  raw handle and null it on release. The engine itself is not part of the header: it is
  modelled as a parameter (a record of answers, one per engine function), and every engine
  call a wrapper makes is appended to a log, so that what a wrapper asks of the engine, how
  often, and with which arguments, can be stated.

  Naming: the procedural functions keep their names (\<open>txn_commit\<close> is
  \<^verbatim>\<open>lmdb::txn_commit\<close>); a member function is prefixed with its capitalised class
  (\<open>Txn_commit\<close> is \<^verbatim>\<open>lmdb::txn::commit\<close>).
\<close>

subsection \<open>Machine types\<close>

type_synonym c_int = "32 word"
  \<comment> \<open>\<^verbatim>\<open>int\<close>; status codes are only compared, \<open>sint\<close> reads the sign\<close>
type_synonym size_t = nat
type_synonym ptr = nat
  \<comment> \<open>an address\<close>
type_synonym byte = "8 word"
type_synonym memory = "ptr \<Rightarrow> byte"
type_synonym MDB_dbi = "32 word"
  \<comment> \<open>\<^verbatim>\<open>unsigned int\<close>\<close>

definition nullptr :: ptr where
  "nullptr = 0"

text \<open>The bytes of the object of size \<open>n\<close> at address \<open>p\<close>.\<close>

definition read_bytes :: "memory \<Rightarrow> ptr \<Rightarrow> size_t \<Rightarrow> byte list" where
  "read_bytes mem p n = map (\<lambda>i. mem (p + i)) [0..<n]"

subsection \<open>What the header takes from \<^verbatim>\<open><lmdb.h>\<close>\<close>

text \<open>
  Modelled from the spec: the status codes of \<^verbatim>\<open><lmdb.h>\<close>, the engine's header, which
  line 23 includes and the repository does not contain. The spec: zero means success, a
  small set of named negative values mean specific conditions. The values are those of
  LMDB's header.
\<close>

definition MDB_SUCCESS :: c_int where
  "MDB_SUCCESS = 0"

definition MDB_KEYEXIST :: c_int where
  "MDB_KEYEXIST = - 30799"

definition MDB_NOTFOUND :: c_int where
  "MDB_NOTFOUND = - 30798"

definition MDB_CORRUPTED :: c_int where
  "MDB_CORRUPTED = - 30796"

definition MDB_PANIC :: c_int where
  "MDB_PANIC = - 30795"

text \<open>
  Modelled from the spec: \<^verbatim>\<open>MDB_val\<close> of \<^verbatim>\<open><lmdb.h>\<close>, the engine's raw key/value
  descriptor: a (length, pointer) pair denoting a byte range. The header assigns both
  fields by name.
\<close>

record MDB_val =
  mv_size :: size_t
  mv_data :: ptr

text \<open>
  Modelled from the spec: \<^verbatim>\<open>MDB_stat\<close> of \<^verbatim>\<open><lmdb.h>\<close>, the cardinality and page-layout
  statistics the engine fills in. The header reads only \<^verbatim>\<open>ms_entries\<close>.
\<close>

record MDB_stat =
  ms_psize :: "32 word"
  ms_depth :: "32 word"
  ms_branch_pages :: size_t
  ms_leaf_pages :: size_t
  ms_overflow_pages :: size_t
  ms_entries :: size_t

text \<open>
  Modelled from the spec: \<^verbatim>\<open>MDB_cursor_op\<close> of \<^verbatim>\<open><lmdb.h>\<close>, the positioning operations
  (exact match, next, previous, first, last, and so on). The header names only
  \<^verbatim>\<open>MDB_SET\<close> and passes any other through.
\<close>

datatype MDB_cursor_op =
  MDB_FIRST | MDB_GET_CURRENT | MDB_LAST | MDB_NEXT | MDB_PREV
  | MDB_SET | MDB_SET_KEY | MDB_SET_RANGE

subsection \<open>The engine as a parameter\<close>

text \<open>
  One entry per engine call, with the arguments as the engine receives them. An
  \<^verbatim>\<open>MDB_val*\<close> argument is logged as the descriptor it points to (\<open>None\<close> for a null
  pointer).
\<close>

datatype engine_call =
  Mdb_env_close ptr
  | Mdb_txn_commit ptr
  | Mdb_txn_abort ptr
  | Mdb_stat ptr MDB_dbi
  | Mdb_get ptr MDB_dbi MDB_val MDB_val
  | Mdb_cursor_close ptr
  | Mdb_cursor_get ptr MDB_val "MDB_val option" MDB_cursor_op

type_synonym log = "engine_call list"

text \<open>
  The engine's answers. Each may depend on every call made so far, so any deterministic
  engine is an instance. The functions returning \<^verbatim>\<open>void\<close> have no answer and are only
  logged. An out-parameter is returned next to the status code: the data descriptor for
  \<^verbatim>\<open>mdb_get\<close>, whose key is an input only, the key and data descriptors for
  \<^verbatim>\<open>mdb_cursor_get\<close>. The answer is computed from the log as it was before the call.
\<close>

record engine =
  mdb_txn_commit :: "log \<Rightarrow> ptr \<Rightarrow> c_int"
  mdb_stat :: "log \<Rightarrow> ptr \<Rightarrow> MDB_dbi \<Rightarrow> c_int \<times> MDB_stat"
  mdb_get :: "log \<Rightarrow> ptr \<Rightarrow> MDB_dbi \<Rightarrow> MDB_val \<Rightarrow> MDB_val \<Rightarrow> c_int \<times> MDB_val"
  mdb_cursor_get ::
    "log \<Rightarrow> ptr \<Rightarrow> MDB_val \<Rightarrow> MDB_val option \<Rightarrow> MDB_cursor_op
      \<Rightarrow> c_int \<times> MDB_val \<times> MDB_val option"

subsection \<open>Error handling\<close>

text \<open>The exception classes of the header; \<open>error_base\<close> gives the direct base class.\<close>

datatype error_class =
  Error | Logic_error | Fatal_error | Runtime_error
  | Key_exist_error | Not_found_error | Corrupted_error | Panic_error

fun error_base :: "error_class \<Rightarrow> error_class option" where
  "error_base Error = None"
| "error_base Logic_error = Some Error"
| "error_base Fatal_error = Some Error"
| "error_base Runtime_error = Some Error"
| "error_base Key_exist_error = Some Runtime_error"
| "error_base Not_found_error = Some Runtime_error"
| "error_base Corrupted_error = Some Fatal_error"
| "error_base Panic_error = Some Fatal_error"

text \<open>A thrown \<^verbatim>\<open>lmdb::error\<close>: its dynamic class, its origin and its code.\<close>

record error =
  thrown :: error_class
  origin :: string
  code :: c_int

text \<open>
  \<^verbatim>\<open>lmdb::error::raise\<close> is \<^verbatim>\<open>[[noreturn]]\<close>: every branch of the switch throws. The result
  type has a right summand only so that a caller's branches type-check.
\<close>

definition raise :: "string \<Rightarrow> c_int \<Rightarrow> error + 'a" where
  "raise orig rc =
     (if rc = MDB_KEYEXIST then Inl \<lparr>thrown = Key_exist_error, origin = orig, code = rc\<rparr>
      else if rc = MDB_NOTFOUND then Inl \<lparr>thrown = Not_found_error, origin = orig, code = rc\<rparr>
      else if rc = MDB_CORRUPTED then Inl \<lparr>thrown = Corrupted_error, origin = orig, code = rc\<rparr>
      else if rc = MDB_PANIC then Inl \<lparr>thrown = Panic_error, origin = orig, code = rc\<rparr>
      else Inl \<lparr>thrown = Runtime_error, origin = orig, code = rc\<rparr>)"

subsection \<open>Procedural interface\<close>

definition env_close :: "ptr \<Rightarrow> log \<Rightarrow> log" where
  "env_close env w = w @ [Mdb_env_close env]"

definition txn_commit :: "engine \<Rightarrow> ptr \<Rightarrow> log \<Rightarrow> (error + unit) \<times> log" where
  "txn_commit eng txn w =
     (let rc = mdb_txn_commit eng w txn; w' = w @ [Mdb_txn_commit txn]
      in if rc \<noteq> MDB_SUCCESS then (raise ''mdb_txn_commit'' rc, w') else (Inr (), w'))"

definition txn_abort :: "ptr \<Rightarrow> log \<Rightarrow> log" where
  "txn_abort txn w = w @ [Mdb_txn_abort txn]"

definition dbi_stat :: "engine \<Rightarrow> ptr \<Rightarrow> MDB_dbi \<Rightarrow> log \<Rightarrow> (error + MDB_stat) \<times> log" where
  "dbi_stat eng txn dbi w =
     (let (rc, result) = mdb_stat eng w txn dbi; w' = w @ [Mdb_stat txn dbi]
      in if rc \<noteq> MDB_SUCCESS then (raise ''mdb_stat'' rc, w') else (Inr result, w'))"

text \<open>
  \<open>dbi_get\<close> and \<open>cursor_get\<close> return the flag together with the descriptors as the
  engine left them (the caller's \<^verbatim>\<open>MDB_val*\<close> arguments are written in place).
\<close>

definition dbi_get ::
  "engine \<Rightarrow> ptr \<Rightarrow> MDB_dbi \<Rightarrow> MDB_val \<Rightarrow> MDB_val \<Rightarrow> log \<Rightarrow> (error + bool \<times> MDB_val) \<times> log"
where
  "dbi_get eng txn dbi key data w =
     (let (rc, data') = mdb_get eng w txn dbi key data; w' = w @ [Mdb_get txn dbi key data]
      in if rc \<noteq> MDB_SUCCESS \<and> rc \<noteq> MDB_NOTFOUND then (raise ''mdb_get'' rc, w')
         else (Inr (rc = MDB_SUCCESS, data'), w'))"

definition cursor_close :: "ptr \<Rightarrow> log \<Rightarrow> log" where
  "cursor_close cursor w = w @ [Mdb_cursor_close cursor]"

definition cursor_get ::
  "engine \<Rightarrow> ptr \<Rightarrow> MDB_val \<Rightarrow> MDB_val option \<Rightarrow> MDB_cursor_op \<Rightarrow> log
    \<Rightarrow> (error + bool \<times> MDB_val \<times> MDB_val option) \<times> log"
where
  "cursor_get eng cursor key data op w =
     (let (rc, key', data') = mdb_cursor_get eng w cursor key data op;
          w' = w @ [Mdb_cursor_get cursor key data op]
      in if rc \<noteq> MDB_SUCCESS \<and> rc \<noteq> MDB_NOTFOUND then (raise ''mdb_cursor_get'' rc, w')
         else (Inr (rc = MDB_SUCCESS, key', data'), w'))"

subsection \<open>Resource interface: environment\<close>

record env =
  env_handle :: ptr

definition Env_close :: "env \<Rightarrow> log \<Rightarrow> env \<times> log" where
  "Env_close this w =
     (if env_handle this \<noteq> nullptr
      then (this\<lparr>env_handle := nullptr\<rparr>, env_close (env_handle this) w)
      else (this, w))"

subsection \<open>Resource interface: transactions\<close>

record txn =
  txn_handle :: ptr

text \<open>The destructor: the body under \<^verbatim>\<open>if (_handle)\<close> is a TODO followed by the reset.\<close>

definition Txn_destroy :: "txn \<Rightarrow> log \<Rightarrow> txn \<times> log" where
  "Txn_destroy this w =
     (if txn_handle this \<noteq> nullptr then (this\<lparr>txn_handle := nullptr\<rparr>, w) else (this, w))"

text \<open>
  \<^verbatim>\<open>commit()\<close>: when \<open>txn_commit\<close> throws, the assignment after it is not reached and the
  object is left as it was.
\<close>

definition Txn_commit :: "engine \<Rightarrow> txn \<Rightarrow> log \<Rightarrow> (error + unit) \<times> txn \<times> log" where
  "Txn_commit eng this w =
     (case txn_commit eng (txn_handle this) w of
        (Inl e, w') \<Rightarrow> (Inl e, this, w')
      | (Inr u, w') \<Rightarrow> (Inr (), this\<lparr>txn_handle := nullptr\<rparr>, w'))"

definition Txn_abort :: "txn \<Rightarrow> log \<Rightarrow> txn \<times> log" where
  "Txn_abort this w = (this\<lparr>txn_handle := nullptr\<rparr>, txn_abort (txn_handle this) w)"

subsection \<open>Resource interface: databases\<close>

record dbi =
  dbi_handle :: MDB_dbi

definition Dbi_stat :: "engine \<Rightarrow> dbi \<Rightarrow> ptr \<Rightarrow> log \<Rightarrow> (error + MDB_stat) \<times> log" where
  "Dbi_stat eng this txn w = dbi_stat eng txn (dbi_handle this) w"

definition Dbi_size :: "engine \<Rightarrow> dbi \<Rightarrow> ptr \<Rightarrow> log \<Rightarrow> (error + size_t) \<times> log" where
  "Dbi_size eng this txn w =
     (case Dbi_stat eng this txn w of
        (Inl e, w') \<Rightarrow> (Inl e, w')
      | (Inr result, w') \<Rightarrow> (Inr (ms_entries result), w'))"

text \<open>
  \<^verbatim>\<open>get<K>(txn, k)\<close>: \<open>sizeof_K\<close> is \<^verbatim>\<open>sizeof(K)\<close> and \<open>k\<close> the address of the referenced
  object. \<^verbatim>\<open>val{}\<close> is zero-initialised.
\<close>

definition Dbi_get :: "engine \<Rightarrow> dbi \<Rightarrow> size_t \<Rightarrow> ptr \<Rightarrow> ptr \<Rightarrow> log \<Rightarrow> (error + bool) \<times> log" where
  "Dbi_get eng this sizeof_K txn k w =
     (let val = \<lparr>mv_size = 0, mv_data = nullptr\<rparr>;
          key = \<lparr>mv_size = sizeof_K, mv_data = k\<rparr>
      in case dbi_get eng txn (dbi_handle this) key val w of
           (Inl e, w') \<Rightarrow> (Inl e, w')
         | (Inr (result, val'), w') \<Rightarrow> (Inr result, w'))"

text \<open>
  What \<^verbatim>\<open>get<K, V>\<close> uses of its template parameter \<^verbatim>\<open>V\<close>, which the header leaves
  unconstrained: \<^verbatim>\<open>sizeof(V)\<close> and \<^verbatim>\<open>V\<close>'s copy assignment. \<open>copy_assign mem src v\<close> is
  the assignee \<open>v\<close> after \<^verbatim>\<open>v = *reinterpret_cast<const V*>(src)\<close> in the memory \<open>mem\<close>;
  \<open>object_bytes\<close> reads the \<^verbatim>\<open>sizeof(V)\<close> bytes of a \<^verbatim>\<open>V\<close> object. An assignment that
  throws is outside the model.
\<close>

record 'v value_type =
  sizeof :: size_t
  object_bytes :: "'v \<Rightarrow> byte list"
  copy_assign :: "memory \<Rightarrow> ptr \<Rightarrow> 'v \<Rightarrow> 'v"

text \<open>
  A trivially copyable \<^verbatim>\<open>V\<close> of \<open>n\<close> bytes: the object is its bytes, and assignment
  copies the \<open>n\<close> bytes of the source object.
\<close>

definition trivially_copyable :: "size_t \<Rightarrow> byte list value_type" where
  "trivially_copyable n =
     \<lparr>sizeof = n, object_bytes = (\<lambda>v. v), copy_assign = (\<lambda>mem src v. read_bytes mem src n)\<rparr>"

text \<open>
  \<^verbatim>\<open>get<K, V>(txn, k, v)\<close>: \<open>V\<close> describes the template argument and \<open>v\<close> is the caller's
  object. The result carries \<open>v\<close> as the call leaves it.
\<close>

definition Dbi_get_value ::
  "engine \<Rightarrow> memory \<Rightarrow> 'v value_type \<Rightarrow> dbi \<Rightarrow> size_t \<Rightarrow> ptr \<Rightarrow> ptr \<Rightarrow> 'v \<Rightarrow> log
    \<Rightarrow> (error + bool) \<times> 'v \<times> log"
where
  "Dbi_get_value eng mem V this sizeof_K txn k v w =
     (let val = \<lparr>mv_size = 0, mv_data = nullptr\<rparr>;
          key = \<lparr>mv_size = sizeof_K, mv_data = k\<rparr>
      in case dbi_get eng txn (dbi_handle this) key val w of
           (Inl e, w') \<Rightarrow> (Inl e, v, w')
         | (Inr (result, val'), w') \<Rightarrow>
             (Inr result, if result then copy_assign V mem (mv_data val') v else v, w'))"

subsection \<open>Resource interface: cursors\<close>

record cursor =
  cursor_handle :: ptr

definition Cursor_close :: "cursor \<Rightarrow> log \<Rightarrow> cursor \<times> log" where
  "Cursor_close this w =
     (if cursor_handle this \<noteq> nullptr
      then (this\<lparr>cursor_handle := nullptr\<rparr>, cursor_close (cursor_handle this) w)
      else (this, w))"

definition Cursor_get ::
  "engine \<Rightarrow> cursor \<Rightarrow> MDB_val \<Rightarrow> MDB_val option \<Rightarrow> MDB_cursor_op \<Rightarrow> log
    \<Rightarrow> (error + bool \<times> MDB_val \<times> MDB_val option) \<times> log"
where
  "Cursor_get eng this key data op w = cursor_get eng (cursor_handle this) key data op w"

definition Cursor_find :: "engine \<Rightarrow> cursor \<Rightarrow> size_t \<Rightarrow> ptr \<Rightarrow> log \<Rightarrow> (error + bool) \<times> log" where
  "Cursor_find eng this sizeof_K k w =
     (let val = \<lparr>mv_size = 0, mv_data = nullptr\<rparr>;
          key = \<lparr>mv_size = sizeof_K, mv_data = k\<rparr>
      in case Cursor_get eng this key (Some val) MDB_SET w of
           (Inl e, w') \<Rightarrow> (Inl e, w')
         | (Inr (result, key', val'), w') \<Rightarrow> (Inr result, w'))"

subsection \<open>Resource interface: values\<close>

text \<open>
  \<^verbatim>\<open>std::strlen\<close> scans from \<open>s\<close> to the first zero byte. On a memory with no zero byte
  from \<open>s\<close> on, the scan does not return: the value is \<open>None\<close>.
\<close>

partial_function (option) strlen_from :: "memory \<Rightarrow> ptr \<Rightarrow> size_t \<Rightarrow> size_t option" where
  "strlen_from mem s n = (if mem (s + n) = 0 then Some n else strlen_from mem s (n + 1))"

definition strlen :: "memory \<Rightarrow> ptr \<Rightarrow> size_t option" where
  "strlen mem s = strlen_from mem s 0"

text \<open>\<^verbatim>\<open>lmdb::val\<close> holds one \<^verbatim>\<open>MDB_val\<close>.\<close>

record val =
  val_val :: MDB_val

definition Val_data_size :: "ptr \<Rightarrow> size_t \<Rightarrow> val" where
  "Val_data_size data sz = \<lparr>val_val = \<lparr>mv_size = sz, mv_data = data\<rparr>\<rparr>"

definition Val_data :: "memory \<Rightarrow> ptr \<Rightarrow> val option" where
  "Val_data mem data = map_option (Val_data_size data) (strlen mem data)"

text \<open>
  The memory at \<open>s\<close> holds the null-terminated string \<open>bs\<close>: its bytes, none of them
  zero, then the terminator.
\<close>

definition c_string_at :: "memory \<Rightarrow> ptr \<Rightarrow> byte list \<Rightarrow> bool" where
  "c_string_at mem s bs \<longleftrightarrow>
     read_bytes mem s (length bs) = bs \<and> list_all (\<lambda>b. b \<noteq> 0) bs \<and> mem (s + length bs) = 0"

text \<open>The bytes a descriptor denotes.\<close>

definition val_bytes :: "memory \<Rightarrow> MDB_val \<Rightarrow> byte list" where
  "val_bytes mem v = read_bytes mem (mv_data v) (mv_size v)"

subsection \<open>Which transaction handles are still valid\<close>

text \<open>
  Modelled from the spec: the engine's rule for transaction handles, which the header relies
  on and does not contain. The spec: a committed or aborted transaction's handle becomes
  invalid immediately, and the handle is invalid after a failed commit too. \<open>released_by\<close>
  is the handle a call invalidates, \<open>txn_used_by\<close> the transaction handle a call is given,
  and \<open>stale_use\<close> says that some call in the log is given a non-null transaction handle
  that an earlier call has invalidated. The log records no begin, so no handle in it is
  issued twice.
\<close>

fun released_by :: "engine_call \<Rightarrow> ptr option" where
  "released_by (Mdb_txn_commit t) = Some t"
| "released_by (Mdb_txn_abort t) = Some t"
| "released_by _ = None"

fun txn_used_by :: "engine_call \<Rightarrow> ptr option" where
  "txn_used_by (Mdb_txn_commit t) = Some t"
| "txn_used_by (Mdb_txn_abort t) = Some t"
| "txn_used_by (Mdb_stat t d) = Some t"
| "txn_used_by (Mdb_get t d key data) = Some t"
| "txn_used_by _ = None"

fun stale_use :: "log \<Rightarrow> bool" where
  "stale_use [] = False"
| "stale_use (c # cs) =
     ((case released_by c of
         None \<Rightarrow> False
       | Some t \<Rightarrow> t \<noteq> nullptr \<and> Some t \<in> set (map txn_used_by cs))
      \<or> stale_use cs)"

subsection \<open>The key bytes a lookup hands over\<close>

text \<open>
  The key descriptor of an engine call, and the bytes that the key of the latest call in
  the log denotes in a memory.
\<close>

fun call_key :: "engine_call \<Rightarrow> MDB_val option" where
  "call_key (Mdb_get t d key data) = Some key"
| "call_key (Mdb_cursor_get c key data op) = Some key"
| "call_key _ = None"

definition passed_key_bytes :: "memory \<Rightarrow> log \<Rightarrow> byte list option" where
  "passed_key_bytes mem w =
     (case rev w of [] \<Rightarrow> None | c # cs \<Rightarrow> map_option (val_bytes mem) (call_key c))"

subsection \<open>Example types for the generic lookups\<close>

text \<open>
  A key type with padding, \<^verbatim>\<open>struct { char tag; int32_t id; }\<close>: 8 bytes, \<^verbatim>\<open>tag\<close> at offset
  0 and \<^verbatim>\<open>id\<close> at offsets 4 to 7. The bytes at offsets 1 to 3 are padding and carry no part
  of the value. \<open>padded_key_value\<close> reads the value, the two members, off the bytes of an
  object. In \<open>padded_key_memory\<close> the objects at 64 and at 200 both hold tag 1 and id 5 and
  differ in a padding byte.
\<close>

definition padded_key_value :: "byte list \<Rightarrow> byte list \<times> byte list" where
  "padded_key_value bs = (take 1 bs, take 4 (drop 4 bs))"

definition padded_key_memory :: memory where
  "padded_key_memory a =
     (if a = 64 \<or> a = 200 then 1 else if a = 68 \<or> a = 204 then 5
      else if a = 201 then 170 else 0)"

text \<open>
  A value type that is not trivially copyable: a class of one member, a pointer to a byte
  that the object owns, whose copy assignment copies the byte pointed to and leaves the
  assignee's own pointer alone, as \<^verbatim>\<open>std::string\<close> does with its characters. \<open>le_decode\<close>
  reads a little-endian pointer. In \<open>boxed_memory\<close> the 8 bytes at 4096 are a pointer to
  address 16, where the byte 65 lies.
\<close>

record boxed =
  box_object :: "byte list"
  box_content :: byte

definition le_decode :: "byte list \<Rightarrow> nat" where
  "le_decode bs = foldr (\<lambda>b a. unat b + 256 * a) bs 0"

definition boxed_type :: "boxed value_type" where
  "boxed_type =
     \<lparr>sizeof = 8, object_bytes = box_object,
      copy_assign = (\<lambda>mem src v. v\<lparr>box_content := mem (le_decode (read_bytes mem src 8))\<rparr>)\<rparr>"

definition boxed_memory :: memory where
  "boxed_memory a = (if a = 4096 then 16 else if a = 16 then 65 else 0)"

definition plain_memory :: memory where
  "plain_memory a = (if a = 4096 then 1 else 2)"

subsection \<open>Reading a result\<close>

text \<open>What a call returned, if it returned, and what it threw, if it threw.\<close>

definition returned :: "error + 'a \<Rightarrow> 'a option" where
  "returned r = (case r of Inl e \<Rightarrow> None | Inr x \<Rightarrow> Some x)"

definition raised :: "error + 'a \<Rightarrow> error option" where
  "raised r = (case r of Inl e \<Rightarrow> Some e | Inr x \<Rightarrow> None)"

subsection \<open>A stub engine for the examples\<close>

text \<open>
  It answers every call with the status \<open>rc\<close>; on success \<^verbatim>\<open>mdb_stat\<close> fills in \<open>st\<close> and
  the lookups point the data descriptor at \<open>v\<close>.
\<close>

definition stub_engine :: "c_int \<Rightarrow> MDB_stat \<Rightarrow> MDB_val \<Rightarrow> engine" where
  "stub_engine rc st v =
     \<lparr>mdb_txn_commit = (\<lambda>w txn. rc),
      mdb_stat = (\<lambda>w txn d. (rc, st)),
      mdb_get = (\<lambda>w txn d key data. (rc, if rc = MDB_SUCCESS then v else data)),
      mdb_cursor_get = (\<lambda>w c key data op.
         (rc, key, if rc = MDB_SUCCESS then map_option (\<lambda>_. v) data else data))\<rparr>"

definition example_stat :: MDB_stat where
  "example_stat =
     \<lparr>ms_psize = 4096, ms_depth = 1, ms_branch_pages = 0, ms_leaf_pages = 1,
      ms_overflow_pages = 0, ms_entries = 3\<rparr>"

definition example_engine :: "c_int \<Rightarrow> engine" where
  "example_engine rc = stub_engine rc example_stat \<lparr>mv_size = 2, mv_data = 4096\<rparr>"

section \<open>Properties\<close>

lemmas status_codes =
  MDB_SUCCESS_def MDB_KEYEXIST_def MDB_NOTFOUND_def MDB_CORRUPTED_def MDB_PANIC_def

subsection \<open>Error classification\<close>

lemma raise_throws:
  "\<exists>e. (raise orig rc :: error + 'a) = Inl e \<and> origin e = orig \<and> code e = rc"
  by (simp add: raise_def)

text \<open>
  C1, as stated, at status zero: \<open>raise\<close> makes no test for success, so the default
  branch of its switch throws the generic runtime error for status zero too.
\<close>

theorem raise_at_success_counterexample:
  "(raise ''mdb_env_create'' MDB_SUCCESS :: error + unit)
     = Inl \<lparr>thrown = Runtime_error, origin = ''mdb_env_create'', code = 0\<rparr>"
  by (simp add: raise_def status_codes)

text \<open>
  C1, amended: \<open>raise\<close> applied to \<^verbatim>\<open>MDB_KEYEXIST\<close> throws the key-exists error, to
  \<^verbatim>\<open>MDB_NOTFOUND\<close> the not-found error, to \<^verbatim>\<open>MDB_CORRUPTED\<close> the corrupted error, to
  \<^verbatim>\<open>MDB_PANIC\<close> the panic error, and to every other code, zero included, the generic
  runtime error; the class thrown depends on the code alone. A status of zero never
  raises because the wrappers do not call \<open>raise\<close> on it: \<open>txn_commit\<close>, \<open>dbi_stat\<close>,
  \<open>dbi_get\<close> and \<open>cursor_get\<close> return normally when the engine answers zero.
\<close>

theorem raise_classifies:
  "map_option thrown (raised (raise orig MDB_KEYEXIST :: error + 'a)) = Some Key_exist_error
   \<and> map_option thrown (raised (raise orig MDB_NOTFOUND :: error + 'a)) = Some Not_found_error
   \<and> map_option thrown (raised (raise orig MDB_CORRUPTED :: error + 'a)) = Some Corrupted_error
   \<and> map_option thrown (raised (raise orig MDB_PANIC :: error + 'a)) = Some Panic_error
   \<and> (rc \<noteq> MDB_KEYEXIST \<and> rc \<noteq> MDB_NOTFOUND \<and> rc \<noteq> MDB_CORRUPTED \<and> rc \<noteq> MDB_PANIC
        \<longrightarrow> map_option thrown (raised (raise orig rc :: error + 'a)) = Some Runtime_error)
   \<and> (rc = rc' \<longrightarrow> map_option thrown (raised (raise orig rc :: error + 'a))
                     = map_option thrown (raised (raise orig' rc' :: error + 'a)))
   \<and> (mdb_txn_commit eng w txn = MDB_SUCCESS \<longrightarrow> raised (fst (txn_commit eng txn w)) = None)
   \<and> (fst (mdb_stat eng w txn d) = MDB_SUCCESS \<longrightarrow> raised (fst (dbi_stat eng txn d w)) = None)
   \<and> (fst (mdb_get eng w txn d key data) = MDB_SUCCESS
        \<longrightarrow> raised (fst (dbi_get eng txn d key data w)) = None)
   \<and> (fst (mdb_cursor_get eng w c key odata op) = MDB_SUCCESS
        \<longrightarrow> raised (fst (cursor_get eng c key odata op w)) = None)"
  by (auto simp: raise_def raised_def status_codes txn_commit_def dbi_stat_def dbi_get_def
      cursor_get_def Let_def split: prod.splits)

theorem raise_classifies_witness:
  "(28 :: c_int) \<noteq> MDB_KEYEXIST \<and> (28 :: c_int) \<noteq> MDB_NOTFOUND
   \<and> (28 :: c_int) \<noteq> MDB_CORRUPTED \<and> (28 :: c_int) \<noteq> MDB_PANIC
   \<and> map_option thrown (raised (raise ''mdb_txn_commit'' 28 :: error + unit)) = Some Runtime_error
   \<and> mdb_txn_commit (example_engine MDB_SUCCESS) [] 1 = MDB_SUCCESS
   \<and> raised (fst (txn_commit (example_engine MDB_SUCCESS) 1 [])) = None
   \<and> fst (mdb_stat (example_engine MDB_SUCCESS) [] 1 1) = MDB_SUCCESS
   \<and> raised (fst (dbi_stat (example_engine MDB_SUCCESS) 1 1 [])) = None
   \<and> raised (fst (dbi_get (example_engine MDB_SUCCESS) 1 1
         \<lparr>mv_size = 8, mv_data = 64\<rparr> \<lparr>mv_size = 0, mv_data = nullptr\<rparr> [])) = None
   \<and> raised (fst (cursor_get (example_engine MDB_SUCCESS) 2
         \<lparr>mv_size = 8, mv_data = 64\<rparr> None MDB_SET [])) = None"
  using raise_classifies [where ?'a = unit, of "''mdb_txn_commit''" 28 28 "''mdb_txn_commit''"
      "example_engine MDB_SUCCESS" "[]" 1 1
      "\<lparr>mv_size = 8, mv_data = 64\<rparr>" "\<lparr>mv_size = 0, mv_data = nullptr\<rparr>" 2 None MDB_SET]
  by (simp add: status_codes example_engine_def stub_engine_def)

subsection \<open>Transactions: commit\<close>

lemma Txn_commit_cases:
  "Txn_commit eng this w =
     (if mdb_txn_commit eng w (txn_handle this) = MDB_SUCCESS
      then (Inr (), this\<lparr>txn_handle := nullptr\<rparr>, w @ [Mdb_txn_commit (txn_handle this)])
      else (raise ''mdb_txn_commit'' (mdb_txn_commit eng w (txn_handle this)), this,
            w @ [Mdb_txn_commit (txn_handle this)]))"
  by (simp add: Txn_commit_def txn_commit_def Let_def raise_def)

text \<open>
  C2, the code at a failing commit: the engine answers 28 (no space left on the device) for
  the transaction with handle 1. \<open>Txn_commit\<close> throws, and the wrapper's handle is still
  1, not null; the one engine call made is the commit.
\<close>

theorem Txn_commit_failed_keeps_handle:
  "Txn_commit (example_engine 28) \<lparr>txn_handle = 1\<rparr> []
     = (Inl \<lparr>thrown = Runtime_error, origin = ''mdb_txn_commit'', code = 28\<rparr>,
        \<lparr>txn_handle = 1\<rparr>, [Mdb_txn_commit 1])
   \<and> (1 :: ptr) \<noteq> nullptr"
  by (simp add: Txn_commit_def txn_commit_def Let_def raise_def status_codes
      example_engine_def stub_engine_def nullptr_def)

subsection \<open>Lookups: absent is not an error\<close>

text \<open>
  C3: \<open>dbi_get\<close> and \<open>cursor_get\<close> return false without raising when the engine answers
  \<^verbatim>\<open>MDB_NOTFOUND\<close>, return true exactly when it answers \<^verbatim>\<open>MDB_SUCCESS\<close>, and for every other
  status throw the error \<open>raise\<close> builds from that status, which carries it as its code.
\<close>

theorem get_absent_is_not_error:
  "(fst (mdb_get eng w txn d key data) = MDB_NOTFOUND
      \<longrightarrow> map_option fst (returned (fst (dbi_get eng txn d key data w))) = Some False)
   \<and> (map_option fst (returned (fst (dbi_get eng txn d key data w))) = Some True
      \<longleftrightarrow> fst (mdb_get eng w txn d key data) = MDB_SUCCESS)
   \<and> (fst (mdb_get eng w txn d key data) \<noteq> MDB_SUCCESS
       \<and> fst (mdb_get eng w txn d key data) \<noteq> MDB_NOTFOUND
      \<longrightarrow> fst (dbi_get eng txn d key data w) = raise ''mdb_get'' (fst (mdb_get eng w txn d key data))
          \<and> map_option code (raised (fst (dbi_get eng txn d key data w)))
              = Some (fst (mdb_get eng w txn d key data)))
   \<and> (fst (mdb_cursor_get eng w c key odata op) = MDB_NOTFOUND
      \<longrightarrow> map_option fst (returned (fst (cursor_get eng c key odata op w))) = Some False)
   \<and> (map_option fst (returned (fst (cursor_get eng c key odata op w))) = Some True
      \<longleftrightarrow> fst (mdb_cursor_get eng w c key odata op) = MDB_SUCCESS)
   \<and> (fst (mdb_cursor_get eng w c key odata op) \<noteq> MDB_SUCCESS
       \<and> fst (mdb_cursor_get eng w c key odata op) \<noteq> MDB_NOTFOUND
      \<longrightarrow> fst (cursor_get eng c key odata op w)
            = raise ''mdb_cursor_get'' (fst (mdb_cursor_get eng w c key odata op))
          \<and> map_option code (raised (fst (cursor_get eng c key odata op w)))
              = Some (fst (mdb_cursor_get eng w c key odata op)))"
  by (auto simp: dbi_get_def cursor_get_def returned_def raised_def raise_def status_codes Let_def
      split: prod.splits)

theorem get_absent_is_not_error_witness:
  "fst (mdb_get (example_engine MDB_NOTFOUND) [] 1 1 \<lparr>mv_size = 8, mv_data = 64\<rparr>
        \<lparr>mv_size = 0, mv_data = nullptr\<rparr>) = MDB_NOTFOUND
   \<and> fst (dbi_get (example_engine MDB_NOTFOUND) 1 1 \<lparr>mv_size = 8, mv_data = 64\<rparr>
        \<lparr>mv_size = 0, mv_data = nullptr\<rparr> [])
       = Inr (False, \<lparr>mv_size = 0, mv_data = nullptr\<rparr>)
   \<and> fst (mdb_get (example_engine MDB_SUCCESS) [] 1 1 \<lparr>mv_size = 8, mv_data = 64\<rparr>
        \<lparr>mv_size = 0, mv_data = nullptr\<rparr>) = MDB_SUCCESS
   \<and> map_option fst (returned (fst (dbi_get (example_engine MDB_SUCCESS) 1 1
        \<lparr>mv_size = 8, mv_data = 64\<rparr> \<lparr>mv_size = 0, mv_data = nullptr\<rparr> []))) = Some True
   \<and> fst (mdb_get (example_engine 28) [] 1 1 \<lparr>mv_size = 8, mv_data = 64\<rparr>
        \<lparr>mv_size = 0, mv_data = nullptr\<rparr>) \<noteq> MDB_SUCCESS
   \<and> fst (mdb_get (example_engine 28) [] 1 1 \<lparr>mv_size = 8, mv_data = 64\<rparr>
        \<lparr>mv_size = 0, mv_data = nullptr\<rparr>) \<noteq> MDB_NOTFOUND
   \<and> map_option code (raised (fst (dbi_get (example_engine 28) 1 1
        \<lparr>mv_size = 8, mv_data = 64\<rparr> \<lparr>mv_size = 0, mv_data = nullptr\<rparr> []))) = Some 28
   \<and> fst (mdb_cursor_get (example_engine MDB_NOTFOUND) [] 2 \<lparr>mv_size = 8, mv_data = 64\<rparr>
        None MDB_NEXT) = MDB_NOTFOUND
   \<and> map_option fst (returned (fst (cursor_get (example_engine MDB_NOTFOUND) 2
        \<lparr>mv_size = 8, mv_data = 64\<rparr> None MDB_NEXT []))) = Some False
   \<and> fst (mdb_cursor_get (example_engine MDB_SUCCESS) [] 2 \<lparr>mv_size = 8, mv_data = 64\<rparr>
        None MDB_NEXT) = MDB_SUCCESS
   \<and> map_option fst (returned (fst (cursor_get (example_engine MDB_SUCCESS) 2
        \<lparr>mv_size = 8, mv_data = 64\<rparr> None MDB_NEXT []))) = Some True
   \<and> fst (mdb_cursor_get (example_engine MDB_PANIC) [] 2 \<lparr>mv_size = 8, mv_data = 64\<rparr>
        None MDB_NEXT) \<noteq> MDB_SUCCESS
   \<and> fst (mdb_cursor_get (example_engine MDB_PANIC) [] 2 \<lparr>mv_size = 8, mv_data = 64\<rparr>
        None MDB_NEXT) \<noteq> MDB_NOTFOUND
   \<and> map_option thrown (raised (fst (cursor_get (example_engine MDB_PANIC) 2
        \<lparr>mv_size = 8, mv_data = 64\<rparr> None MDB_NEXT []))) = Some Panic_error"
  using
    get_absent_is_not_error [of "example_engine MDB_NOTFOUND" "[]" 1 1
      "\<lparr>mv_size = 8, mv_data = 64\<rparr>" "\<lparr>mv_size = 0, mv_data = nullptr\<rparr>" 2 None MDB_NEXT]
    get_absent_is_not_error [of "example_engine MDB_SUCCESS" "[]" 1 1
      "\<lparr>mv_size = 8, mv_data = 64\<rparr>" "\<lparr>mv_size = 0, mv_data = nullptr\<rparr>" 2 None MDB_NEXT]
    get_absent_is_not_error [of "example_engine 28" "[]" 1 1
      "\<lparr>mv_size = 8, mv_data = 64\<rparr>" "\<lparr>mv_size = 0, mv_data = nullptr\<rparr>" 2 None MDB_NEXT]
    get_absent_is_not_error [of "example_engine MDB_PANIC" "[]" 1 1
      "\<lparr>mv_size = 8, mv_data = 64\<rparr>" "\<lparr>mv_size = 0, mv_data = nullptr\<rparr>" 2 None MDB_NEXT]
  by (simp add: status_codes example_engine_def stub_engine_def dbi_get_def cursor_get_def
      raise_def raised_def returned_def)

subsection \<open>Closing twice\<close>

text \<open>
  C4: closing an environment or a cursor a second time changes nothing: the wrapper and the
  log of engine calls after the second \<open>close\<close> are those after the first. The handle is
  null after the first close, hence after every later one, no error is produced (\<open>close\<close>
  has no throwing branch), and the engine's release is called once when the handle was not
  null and never otherwise.
\<close>

theorem close_idempotent:
  "Env_close (fst (Env_close e w)) (snd (Env_close e w)) = Env_close e w
   \<and> env_handle (fst (Env_close e w)) = nullptr
   \<and> snd (Env_close e w)
       = (if env_handle e \<noteq> nullptr then w @ [Mdb_env_close (env_handle e)] else w)
   \<and> Cursor_close (fst (Cursor_close c w)) (snd (Cursor_close c w)) = Cursor_close c w
   \<and> cursor_handle (fst (Cursor_close c w)) = nullptr
   \<and> snd (Cursor_close c w)
       = (if cursor_handle c \<noteq> nullptr then w @ [Mdb_cursor_close (cursor_handle c)] else w)"
  by (simp add: Env_close_def Cursor_close_def env_close_def cursor_close_def)

theorem close_idempotent_witness:
  "Env_close \<lparr>env_handle = 3\<rparr> [] = (\<lparr>env_handle = nullptr\<rparr>, [Mdb_env_close 3])
   \<and> Env_close \<lparr>env_handle = nullptr\<rparr> [Mdb_env_close 3]
       = (\<lparr>env_handle = nullptr\<rparr>, [Mdb_env_close 3])
   \<and> Cursor_close \<lparr>cursor_handle = 4\<rparr> [] = (\<lparr>cursor_handle = nullptr\<rparr>, [Mdb_cursor_close 4])
   \<and> Cursor_close \<lparr>cursor_handle = nullptr\<rparr> [Mdb_cursor_close 4]
       = (\<lparr>cursor_handle = nullptr\<rparr>, [Mdb_cursor_close 4])"
  using close_idempotent [of "\<lparr>env_handle = 3\<rparr>" "[]" "\<lparr>cursor_handle = 4\<rparr>"]
  by (simp add: Env_close_def Cursor_close_def env_close_def cursor_close_def nullptr_def)

subsection \<open>Transactions: destructor and abort\<close>

text \<open>
  C5: destroying a transaction wrapper whose handle is not null makes no engine call (the
  log is unchanged: no commit, no abort) and only sets the wrapper's pointer to null.
\<close>

theorem Txn_destroy_no_engine_call:
  "txn_handle this \<noteq> nullptr \<Longrightarrow>
     Txn_destroy this w = (this\<lparr>txn_handle := nullptr\<rparr>, w)"
  by (simp add: Txn_destroy_def)

theorem Txn_destroy_no_engine_call_witness:
  "txn_handle \<lparr>txn_handle = 7\<rparr> \<noteq> nullptr
   \<and> Txn_destroy \<lparr>txn_handle = 7\<rparr> [] = (\<lparr>txn_handle = nullptr\<rparr>, [])"
  using Txn_destroy_no_engine_call [of "\<lparr>txn_handle = 7\<rparr>" "[]"]
  by (simp add: nullptr_def)

lemma Txn_abort_after_commit:
  "Txn_abort (fst (snd (Txn_commit eng this w))) (snd (snd (Txn_commit eng this w)))
     = (this\<lparr>txn_handle := nullptr\<rparr>,
        w @ [Mdb_txn_commit (txn_handle this),
             Mdb_txn_abort (if mdb_txn_commit eng w (txn_handle this) = MDB_SUCCESS
                            then nullptr else txn_handle this)])"
  by (simp add: Txn_commit_cases Txn_abort_def txn_abort_def)

lemma stale_use_append:
  "stale_use w \<Longrightarrow> stale_use (w @ w')"
  by (induction w) (auto split: option.splits)

lemma stale_use_release_twice:
  "t \<noteq> nullptr \<Longrightarrow> stale_use (w @ [Mdb_txn_commit t, Mdb_txn_abort t])"
  by (induction w) (auto split: option.splits)

lemma Txn_abort_after_failed_commit:
  "txn_handle this \<noteq> nullptr \<Longrightarrow> mdb_txn_commit eng w (txn_handle this) \<noteq> MDB_SUCCESS
    \<Longrightarrow> stale_use
          (snd (Txn_abort (fst (snd (Txn_commit eng this w))) (snd (snd (Txn_commit eng this w)))))"
  by (simp add: Txn_abort_after_commit stale_use_release_twice)

lemma Txn_abort_live_handle:
  "\<not> stale_use w \<Longrightarrow> Some (txn_handle this) \<notin> set (map released_by w)
    \<Longrightarrow> \<not> stale_use (snd (Txn_abort this w))"
  by (induction w) (auto simp: Txn_abort_def txn_abort_def split: option.splits)

text \<open>
  C6, the code in a cleanup path after a failing commit: the engine answers 28 to the commit
  of the transaction with handle 1, \<open>Txn_commit\<close> throws and leaves the handle in place, and
  the \<open>abort\<close> that follows hands the engine the handle 1 again, which the commit has
  already invalidated. \<open>abort\<close> itself does not throw and nulls the handle.
\<close>

theorem Txn_abort_after_failed_commit_stale:
  "Txn_commit (example_engine 28) \<lparr>txn_handle = 1\<rparr> []
     = (Inl \<lparr>thrown = Runtime_error, origin = ''mdb_txn_commit'', code = 28\<rparr>,
        \<lparr>txn_handle = 1\<rparr>, [Mdb_txn_commit 1])
   \<and> Txn_abort \<lparr>txn_handle = 1\<rparr> [Mdb_txn_commit 1]
       = (\<lparr>txn_handle = nullptr\<rparr>, [Mdb_txn_commit 1, Mdb_txn_abort 1])
   \<and> stale_use [Mdb_txn_commit 1, Mdb_txn_abort 1]"
  by (simp add: Txn_commit_def txn_commit_def Txn_abort_def txn_abort_def Let_def raise_def
      status_codes example_engine_def stub_engine_def nullptr_def)

subsection \<open>Databases: size and stat\<close>

text \<open>
  C9: \<open>size\<close> returns the \<^verbatim>\<open>ms_entries\<close> of what \<open>stat\<close> returns, throws what \<open>stat\<close>
  throws and exactly when it does, and makes the same engine call; so it returns the entry
  count the engine filled in when the engine answers success, and throws otherwise.
\<close>

theorem Dbi_size_is_stat_entries:
  "returned (fst (Dbi_size eng this txn w))
     = map_option ms_entries (returned (fst (Dbi_stat eng this txn w)))
   \<and> raised (fst (Dbi_size eng this txn w)) = raised (fst (Dbi_stat eng this txn w))
   \<and> snd (Dbi_size eng this txn w) = snd (Dbi_stat eng this txn w)
   \<and> (mdb_stat eng w txn (dbi_handle this) = (rc, st)
        \<longrightarrow> fst (Dbi_size eng this txn w)
            = (if rc = MDB_SUCCESS then Inr (ms_entries st) else raise ''mdb_stat'' rc))"
  by (simp add: Dbi_size_def Dbi_stat_def dbi_stat_def raise_def returned_def raised_def
      split: prod.splits sum.splits)

theorem Dbi_size_is_stat_entries_witness:
  "mdb_stat (example_engine MDB_SUCCESS) [] 5 (dbi_handle \<lparr>dbi_handle = 1\<rparr>)
     = (MDB_SUCCESS, example_stat)
   \<and> Dbi_size (example_engine MDB_SUCCESS) \<lparr>dbi_handle = 1\<rparr> 5 [] = (Inr 3, [Mdb_stat 5 1])
   \<and> returned (fst (Dbi_stat (example_engine MDB_SUCCESS) \<lparr>dbi_handle = 1\<rparr> 5 []))
       = Some example_stat
   \<and> mdb_stat (example_engine MDB_CORRUPTED) [] 5 (dbi_handle \<lparr>dbi_handle = 1\<rparr>)
     = (MDB_CORRUPTED, example_stat)
   \<and> map_option thrown (raised (fst (Dbi_size (example_engine MDB_CORRUPTED)
        \<lparr>dbi_handle = 1\<rparr> 5 []))) = Some Corrupted_error"
  using
    Dbi_size_is_stat_entries [of "example_engine MDB_SUCCESS" "\<lparr>dbi_handle = 1\<rparr>" 5 "[]"
      MDB_SUCCESS example_stat]
    Dbi_size_is_stat_entries [of "example_engine MDB_CORRUPTED" "\<lparr>dbi_handle = 1\<rparr>" 5 "[]"
      MDB_CORRUPTED example_stat]
  by (simp add: example_engine_def stub_engine_def example_stat_def status_codes
      Dbi_size_def Dbi_stat_def dbi_stat_def raise_def returned_def raised_def)

subsection \<open>Generic lookups: the key handed to the engine\<close>

lemma Dbi_get_log:
  "snd (Dbi_get eng this sizeof_K txn k w)
     = w @ [Mdb_get txn (dbi_handle this) \<lparr>mv_size = sizeof_K, mv_data = k\<rparr>
              \<lparr>mv_size = 0, mv_data = nullptr\<rparr>]"
  by (simp add: Dbi_get_def dbi_get_def Let_def split: prod.splits sum.splits)

lemma Cursor_find_log:
  "snd (Cursor_find eng c sizeof_K k w)
     = w @ [Mdb_cursor_get (cursor_handle c) \<lparr>mv_size = sizeof_K, mv_data = k\<rparr>
              (Some \<lparr>mv_size = 0, mv_data = nullptr\<rparr>) MDB_SET]"
  by (simp add: Cursor_find_def Cursor_get_def cursor_get_def Let_def
      split: prod.splits sum.splits)

lemma Dbi_get_key_bytes:
  "passed_key_bytes mem (snd (Dbi_get eng this sizeof_K txn k w))
     = Some (read_bytes mem k sizeof_K)"
  by (simp add: Dbi_get_log passed_key_bytes_def val_bytes_def)

lemma Cursor_find_key_bytes:
  "passed_key_bytes mem (snd (Cursor_find eng c sizeof_K k w))
     = Some (read_bytes mem k sizeof_K)"
  by (simp add: Cursor_find_log passed_key_bytes_def val_bytes_def)

lemma length_read_bytes: "length (read_bytes mem p n) = n"
  by (simp add: read_bytes_def)

text \<open>
  C7, as stated, at a key type with padding: the objects at 64 and at 200 hold the same
  logical key (tag 1, id 5), and the two lookups hand the engine different key bytes,
  because the padding byte at offset 1 is part of what is passed.
\<close>

theorem padded_key_counterexample:
  "padded_key_value (read_bytes padded_key_memory 64 8)
     = padded_key_value (read_bytes padded_key_memory 200 8)
   \<and> passed_key_bytes padded_key_memory
        (snd (Dbi_get (example_engine MDB_NOTFOUND) \<lparr>dbi_handle = 1\<rparr> 8 5 64 []))
       = Some [1, 0, 0, 0, 5, 0, 0, 0]
   \<and> passed_key_bytes padded_key_memory
        (snd (Dbi_get (example_engine MDB_NOTFOUND) \<lparr>dbi_handle = 1\<rparr> 8 5 200 []))
       = Some [1, 170, 0, 0, 5, 0, 0, 0]
   \<and> passed_key_bytes padded_key_memory
        (snd (Dbi_get (example_engine MDB_NOTFOUND) \<lparr>dbi_handle = 1\<rparr> 8 5 64 []))
       \<noteq> passed_key_bytes padded_key_memory
        (snd (Dbi_get (example_engine MDB_NOTFOUND) \<lparr>dbi_handle = 1\<rparr> 8 5 200 []))"
  by (simp add: Dbi_get_key_bytes padded_key_value_def padded_key_memory_def read_bytes_def
      upt_rec)

text \<open>
  C7, amended: for a key object of \<^verbatim>\<open>sizeof(K)\<close> bytes at address \<open>k\<close>, \<open>dbi::get\<close> and
  \<open>cursor::find\<close> each make one engine call, whose key descriptor has size \<^verbatim>\<open>sizeof(K)\<close>
  and data pointer \<open>k\<close>, so the key handed to the engine is exactly the object's
  \<^verbatim>\<open>sizeof(K)\<close> bytes. Two lookups hand over identical key bytes exactly when the two key
  objects have identical bytes; that is so for every two objects holding the same logical
  key when the logical key determines the object's bytes (\<open>logical\<close>, which reads the key off
  the bytes, is one-to-one on objects of that size: no padding, no indirection).
\<close>

theorem lookup_key_is_object_bytes:
  "snd (Dbi_get eng this sizeof_K txn k w)
     = w @ [Mdb_get txn (dbi_handle this) \<lparr>mv_size = sizeof_K, mv_data = k\<rparr>
              \<lparr>mv_size = 0, mv_data = nullptr\<rparr>]
   \<and> snd (Cursor_find eng c sizeof_K k w)
     = w @ [Mdb_cursor_get (cursor_handle c) \<lparr>mv_size = sizeof_K, mv_data = k\<rparr>
              (Some \<lparr>mv_size = 0, mv_data = nullptr\<rparr>) MDB_SET]
   \<and> passed_key_bytes mem (snd (Dbi_get eng this sizeof_K txn k w))
       = Some (read_bytes mem k sizeof_K)
   \<and> passed_key_bytes mem (snd (Cursor_find eng c sizeof_K k w))
       = Some (read_bytes mem k sizeof_K)
   \<and> (passed_key_bytes mem (snd (Dbi_get eng this sizeof_K txn k w))
        = passed_key_bytes mem' (snd (Dbi_get eng' this' sizeof_K txn' k' w'))
      \<longleftrightarrow> read_bytes mem k sizeof_K = read_bytes mem' k' sizeof_K)
   \<and> (passed_key_bytes mem (snd (Cursor_find eng c sizeof_K k w))
        = passed_key_bytes mem' (snd (Dbi_get eng' this' sizeof_K txn' k' w'))
      \<longleftrightarrow> read_bytes mem k sizeof_K = read_bytes mem' k' sizeof_K)
   \<and> (inj_on logical {bs. length bs = sizeof_K}
       \<and> logical (read_bytes mem k sizeof_K) = logical (read_bytes mem' k' sizeof_K)
      \<longrightarrow> passed_key_bytes mem (snd (Dbi_get eng this sizeof_K txn k w))
            = passed_key_bytes mem' (snd (Dbi_get eng' this' sizeof_K txn' k' w'))
          \<and> passed_key_bytes mem (snd (Cursor_find eng c sizeof_K k w))
            = passed_key_bytes mem' (snd (Dbi_get eng' this' sizeof_K txn' k' w')))"
proof -
  have "read_bytes mem k sizeof_K = read_bytes mem' k' sizeof_K"
    if "inj_on logical {bs. length bs = sizeof_K}"
      and "logical (read_bytes mem k sizeof_K) = logical (read_bytes mem' k' sizeof_K)"
    using that by (auto simp: inj_on_def length_read_bytes)
  then show ?thesis
    unfolding Dbi_get_key_bytes Cursor_find_key_bytes
    by (auto simp: Dbi_get_log Cursor_find_log)
qed

text \<open>
  The example: one-byte keys, read as themselves, at 64 and at 200 in \<open>padded_key_memory\<close>,
  both holding the byte 1.
\<close>

theorem lookup_key_is_object_bytes_witness:
  "inj_on (take 1 :: byte list \<Rightarrow> byte list) {bs. length bs = 1}
   \<and> take 1 (read_bytes padded_key_memory 64 1) = take 1 (read_bytes padded_key_memory 200 1)
   \<and> passed_key_bytes padded_key_memory
        (snd (Dbi_get (example_engine MDB_NOTFOUND) \<lparr>dbi_handle = 1\<rparr> 1 5 64 [])) = Some [1]
   \<and> passed_key_bytes padded_key_memory
        (snd (Cursor_find (example_engine MDB_NOTFOUND) \<lparr>cursor_handle = 9\<rparr> 1 64 []))
       = passed_key_bytes padded_key_memory
        (snd (Dbi_get (example_engine MDB_SUCCESS) \<lparr>dbi_handle = 2\<rparr> 1 6 200 []))
   \<and> snd (Cursor_find (example_engine MDB_NOTFOUND) \<lparr>cursor_handle = 9\<rparr> 1 64 [])
       = [Mdb_cursor_get 9 \<lparr>mv_size = 1, mv_data = 64\<rparr>
            (Some \<lparr>mv_size = 0, mv_data = nullptr\<rparr>) MDB_SET]"
proof -
  have inj: "inj_on (take 1 :: byte list \<Rightarrow> byte list) {bs. length bs = 1}"
    by (simp add: inj_on_def)
  have same: "take 1 (read_bytes padded_key_memory 64 1)
      = take 1 (read_bytes padded_key_memory 200 1)"
    by (simp add: read_bytes_def padded_key_memory_def)
  have val: "read_bytes padded_key_memory 64 1 = [1]"
    by (simp add: read_bytes_def padded_key_memory_def)
  note t = lookup_key_is_object_bytes [of "example_engine MDB_NOTFOUND" "\<lparr>dbi_handle = 1\<rparr>" 1 5
      64 "[]" "\<lparr>cursor_handle = 9\<rparr>" padded_key_memory padded_key_memory
      "example_engine MDB_SUCCESS" "\<lparr>dbi_handle = 2\<rparr>" 6 200 "[]" "take 1"]
  from t have "passed_key_bytes padded_key_memory
        (snd (Dbi_get (example_engine MDB_NOTFOUND) \<lparr>dbi_handle = 1\<rparr> 1 5 64 []))
      = Some (read_bytes padded_key_memory 64 1)"
    by blast
  with val have bytes: "passed_key_bytes padded_key_memory
        (snd (Dbi_get (example_engine MDB_NOTFOUND) \<lparr>dbi_handle = 1\<rparr> 1 5 64 [])) = Some [1]"
    by simp
  from t inj same have eq: "passed_key_bytes padded_key_memory
        (snd (Cursor_find (example_engine MDB_NOTFOUND) \<lparr>cursor_handle = 9\<rparr> 1 64 []))
      = passed_key_bytes padded_key_memory
        (snd (Dbi_get (example_engine MDB_SUCCESS) \<lparr>dbi_handle = 2\<rparr> 1 6 200 []))"
    by blast
  from t have "snd (Cursor_find (example_engine MDB_NOTFOUND) \<lparr>cursor_handle = 9\<rparr> 1 64 [])
      = [] @ [Mdb_cursor_get 9 (\<lparr>mv_size = 1, mv_data = 64\<rparr>)
            (Some \<lparr>mv_size = 0, mv_data = nullptr\<rparr>) MDB_SET]"
    by simp
  then have logged: "snd (Cursor_find (example_engine MDB_NOTFOUND) \<lparr>cursor_handle = 9\<rparr> 1 64 [])
      = [Mdb_cursor_get 9 \<lparr>mv_size = 1, mv_data = 64\<rparr>
            (Some \<lparr>mv_size = 0, mv_data = nullptr\<rparr>) MDB_SET]"
    by simp
  from inj same bytes eq logged show ?thesis by blast
qed

subsection \<open>Generic lookups: the value read back\<close>

text \<open>
  C8, as stated, at a value type that is not trivially copyable: the key is found, the stored
  value's data is at 4096, and after the call the bytes of \<open>v\<close> are the ones it had, not the
  \<^verbatim>\<open>sizeof(V)\<close> bytes at 4096; what the assignment took is the byte 65 at address 16,
  outside the stored value.
\<close>

theorem Dbi_get_value_boxed_counterexample:
  "Dbi_get_value (example_engine MDB_SUCCESS) boxed_memory boxed_type \<lparr>dbi_handle = 1\<rparr> 8 5 64
      \<lparr>box_object = [32, 0, 0, 0, 0, 0, 0, 0], box_content = 0\<rparr> []
     = (Inr True, \<lparr>box_object = [32, 0, 0, 0, 0, 0, 0, 0], box_content = 65\<rparr>,
        [Mdb_get 5 1 \<lparr>mv_size = 8, mv_data = 64\<rparr> \<lparr>mv_size = 0, mv_data = nullptr\<rparr>])
   \<and> read_bytes boxed_memory 4096 (sizeof boxed_type) = [16, 0, 0, 0, 0, 0, 0, 0]
   \<and> object_bytes boxed_type \<lparr>box_object = [32, 0, 0, 0, 0, 0, 0, 0], box_content = 65\<rparr>
       \<noteq> read_bytes boxed_memory 4096 (sizeof boxed_type)"
  by (simp add: Dbi_get_value_def dbi_get_def example_engine_def stub_engine_def status_codes
      boxed_type_def boxed_memory_def read_bytes_def le_decode_def upt_rec)

text \<open>
  C8, amended: when the engine answers \<^verbatim>\<open>MDB_NOTFOUND\<close>, \<open>get(txn, k, v)\<close> returns false and
  \<open>v\<close> is as it was. When it answers success with a data descriptor of any size \<open>n\<close> at
  \<open>p\<close>, the call returns true and \<open>v\<close> is assigned, by the copy assignment of \<^verbatim>\<open>V\<close>, from
  the object of type \<^verbatim>\<open>V\<close> at \<open>p\<close>: \<open>n\<close> plays no part, no check of the stored length
  against \<^verbatim>\<open>sizeof(V)\<close> is made. For a trivially copyable \<^verbatim>\<open>V\<close> that assignment reads
  exactly the \<^verbatim>\<open>sizeof(V)\<close> bytes at \<open>p\<close> into \<open>v\<close>.
\<close>

theorem Dbi_get_value_reads_sizeof_V:
  "(fst (mdb_get eng w txn (dbi_handle this) \<lparr>mv_size = sizeof_K, mv_data = k\<rparr>
          \<lparr>mv_size = 0, mv_data = nullptr\<rparr>) = MDB_NOTFOUND
      \<longrightarrow> fst (Dbi_get_value eng mem V this sizeof_K txn k v w) = Inr False
          \<and> fst (snd (Dbi_get_value eng mem V this sizeof_K txn k v w)) = v)
   \<and> (mdb_get eng w txn (dbi_handle this) \<lparr>mv_size = sizeof_K, mv_data = k\<rparr>
          \<lparr>mv_size = 0, mv_data = nullptr\<rparr> = (MDB_SUCCESS, \<lparr>mv_size = n, mv_data = p\<rparr>)
      \<longrightarrow> fst (Dbi_get_value eng mem V this sizeof_K txn k v w) = Inr True
          \<and> fst (snd (Dbi_get_value eng mem V this sizeof_K txn k v w)) = copy_assign V mem p v
          \<and> fst (Dbi_get_value eng mem (trivially_copyable sizeof_V) this sizeof_K txn k bs w)
              = Inr True
          \<and> fst (snd (Dbi_get_value eng mem (trivially_copyable sizeof_V) this sizeof_K txn k bs w))
              = read_bytes mem p sizeof_V
          \<and> length (object_bytes (trivially_copyable sizeof_V)
              (fst (snd (Dbi_get_value eng mem (trivially_copyable sizeof_V) this sizeof_K
                          txn k bs w)))) = sizeof_V)"
  by (auto simp: Dbi_get_value_def dbi_get_def Let_def status_codes read_bytes_def
      trivially_copyable_def split: prod.splits sum.splits)

text \<open>
  The example: a trivially copyable \<^verbatim>\<open>V\<close> of 4 bytes; the stored value is the 2 bytes at
  4096, and 4 bytes are read.
\<close>

theorem Dbi_get_value_reads_sizeof_V_witness:
  "fst (mdb_get (example_engine MDB_NOTFOUND) [] 5 (dbi_handle \<lparr>dbi_handle = 1\<rparr>)
        \<lparr>mv_size = 8, mv_data = 64\<rparr> \<lparr>mv_size = 0, mv_data = nullptr\<rparr>) = MDB_NOTFOUND
   \<and> Dbi_get_value (example_engine MDB_NOTFOUND) plain_memory (trivially_copyable 4)
        \<lparr>dbi_handle = 1\<rparr> 8 5 64 [9, 9, 9, 9] []
       = (Inr False, [9, 9, 9, 9],
          [Mdb_get 5 1 \<lparr>mv_size = 8, mv_data = 64\<rparr> \<lparr>mv_size = 0, mv_data = nullptr\<rparr>])
   \<and> mdb_get (example_engine MDB_SUCCESS) [] 5 (dbi_handle \<lparr>dbi_handle = 1\<rparr>)
        \<lparr>mv_size = 8, mv_data = 64\<rparr> \<lparr>mv_size = 0, mv_data = nullptr\<rparr>
       = (MDB_SUCCESS, \<lparr>mv_size = 2, mv_data = 4096\<rparr>)
   \<and> Dbi_get_value (example_engine MDB_SUCCESS) plain_memory (trivially_copyable 4)
        \<lparr>dbi_handle = 1\<rparr> 8 5 64 [9, 9, 9, 9] []
       = (Inr True, [1, 2, 2, 2],
          [Mdb_get 5 1 \<lparr>mv_size = 8, mv_data = 64\<rparr> \<lparr>mv_size = 0, mv_data = nullptr\<rparr>])"
  using
    Dbi_get_value_reads_sizeof_V [of "example_engine MDB_NOTFOUND" "[]" 5 "\<lparr>dbi_handle = 1\<rparr>"
      8 64 plain_memory "trivially_copyable 4" "[9, 9, 9, 9]" 2 4096 4 "[9, 9, 9, 9]"]
    Dbi_get_value_reads_sizeof_V [of "example_engine MDB_SUCCESS" "[]" 5 "\<lparr>dbi_handle = 1\<rparr>"
      8 64 plain_memory "trivially_copyable 4" "[9, 9, 9, 9]" 2 4096 4 "[9, 9, 9, 9]"]
  by (simp add: example_engine_def stub_engine_def status_codes Dbi_get_value_def dbi_get_def
      trivially_copyable_def plain_memory_def read_bytes_def upt_rec)

subsection \<open>Values\<close>

lemma strlen_from_scan:
  "k \<le> n \<Longrightarrow> \<forall>i. k \<le> i \<and> i < n \<longrightarrow> mem (s + i) \<noteq> 0 \<Longrightarrow> mem (s + n) = 0
    \<Longrightarrow> strlen_from mem s k = Some n"
proof (induction "n - k" arbitrary: k)
  case 0
  then have "k = n" by simp
  with 0 show ?case by (subst strlen_from.simps) simp
next
  case (Suc m)
  then have lt: "k < n" and nz: "mem (s + k) \<noteq> 0" by auto
  have "strlen_from mem s (k + 1) = Some n"
    using Suc by (intro Suc.hyps(1)) auto
  with nz show ?case by (subst strlen_from.simps) simp
qed

lemma c_string_at_nonzero:
  assumes "c_string_at mem s bs" "i < length bs"
  shows "mem (s + i) \<noteq> 0"
proof -
  from assms have "read_bytes mem s (length bs) ! i = bs ! i"
    by (simp add: c_string_at_def)
  with assms(2) have "mem (s + i) = bs ! i"
    by (simp add: read_bytes_def)
  moreover from assms have "bs ! i \<noteq> 0"
    by (simp add: c_string_at_def list_all_length)
  ultimately show ?thesis by simp
qed

lemma strlen_c_string: "c_string_at mem s bs \<Longrightarrow> strlen mem s = Some (length bs)"
  unfolding strlen_def
  by (rule strlen_from_scan) (auto simp: c_string_at_nonzero, simp add: c_string_at_def)

text \<open>
  C10: when the memory at \<open>s\<close> holds a null-terminated string \<open>bs\<close>, the constructor from
  \<^verbatim>\<open>const char*\<close> returns (the scan for the terminator ends) a value whose size is the
  number of bytes of \<open>bs\<close> and whose data pointer is \<open>s\<close>; the constructor from a pointer
  and a size stores that pointer and that size.
\<close>

theorem val_constructors:
  "(c_string_at mem s bs
      \<longrightarrow> Val_data mem s = Some \<lparr>val_val = \<lparr>mv_size = length bs, mv_data = s\<rparr>\<rparr>)
   \<and> Val_data_size data sz = \<lparr>val_val = \<lparr>mv_size = sz, mv_data = data\<rparr>\<rparr>"
  by (simp add: Val_data_def Val_data_size_def strlen_c_string)

theorem val_constructors_witness:
  "c_string_at (\<lambda>a. if a = 100 then 104 else if a = 101 then 105 else 0) 100 [104, 105]
   \<and> Val_data (\<lambda>a. if a = 100 then 104 else if a = 101 then 105 else 0) 100
       = Some \<lparr>val_val = \<lparr>mv_size = 2, mv_data = 100\<rparr>\<rparr>"
proof -
  have h: "c_string_at (\<lambda>a. if a = 100 then 104 else if a = 101 then 105 else 0) 100 [104, 105]"
    by (simp add: c_string_at_def read_bytes_def upt_rec)
  with val_constructors [of "\<lambda>a. if a = 100 then 104 else if a = 101 then 105 else 0" 100
      "[104, 105]"]
  show ?thesis by simp
qed

end
